theory Spec2Isabelle
  imports Complex_Main
begin

section \<open>Values, errors and the helpers of the base class\<close>

text \<open>
  The two recurrent neurons of \<^verbatim>\<open>snntorch/_neurons\<close> compute with tensors, every
  operation being elementwise. The model follows the value of one neuron of a layer (of
  width two or more) through those operations, in exact real arithmetic.

  A Python value bound to \<^verbatim>\<open>spk\<close>, \<^verbatim>\<open>syn\<close> or \<^verbatim>\<open>mem\<close> is one of three things:
  the default \<^verbatim>\<open>False\<close> of the keyword arguments, the uninitialised marker
  \<^verbatim>\<open>_SpikeTensor(init_flag=False)\<close> (an empty tensor that has the attribute
  \<^verbatim>\<open>init_flag\<close>), or a tensor. A tensor carries its value and a flag that is
  \<open>True\<close> when the tensor may be attached to gradient history; \<^verbatim>\<open>detach_()\<close>
  clears it.
\<close>

datatype error =
    TypeError string
  | AttributeError string
  | UnboundLocalError string
  | RuntimeError string

datatype pyval = PyFalse | SpikeTensor | Tensor real bool

datatype outputs =
    Out_spk real
  | Out_spk_mem real real
  | Out_spk_syn_mem real real real

text \<open>\<^verbatim>\<open>x.clamp(lo, hi)\<close> of the tensor engine.\<close>

definition clamp :: "real \<Rightarrow> real \<Rightarrow> real \<Rightarrow> real" where
  "clamp x lo hi = min (max x lo) hi"

text \<open>\<^verbatim>\<open>hasattr(x, "init_flag")\<close>: only the marker has the attribute.\<close>

fun hasattr_init_flag :: "pyval \<Rightarrow> bool" where
  "hasattr_init_flag SpikeTensor = True"
| "hasattr_init_flag PyFalse = False"
| "hasattr_init_flag (Tensor v g) = False"

text \<open>\<^verbatim>\<open>x is False\<close> and \<^verbatim>\<open>x is not False\<close>.\<close>

fun is_False :: "pyval \<Rightarrow> bool" where
  "is_False PyFalse = True"
| "is_False SpikeTensor = False"
| "is_False (Tensor v g) = False"

fun is_not_False :: "pyval \<Rightarrow> bool" where
  "is_not_False PyFalse = False"
| "is_not_False SpikeTensor = True"
| "is_not_False (Tensor v g) = True"

text \<open>
  The value a Python object contributes to tensor arithmetic: \<^verbatim>\<open>False\<close> counts as
  zero, a tensor as its value. The marker is an empty tensor, which does not broadcast
  against a row of two or more neurons: the tensor engine raises. No state that
  \<^verbatim>\<open>__init__\<close>, \<^verbatim>\<open>forward\<close> or \<^verbatim>\<open>reset_hidden\<close> produces brings a marker
  this far.
\<close>

fun num :: "pyval \<Rightarrow> error + real" where
  "num PyFalse = Inr 0"
| "num (Tensor v g) = Inr v"
| "num SpikeTensor = Inl (RuntimeError ''The size of tensor a must match the size of tensor b'')"

text \<open>An attribute of the instance read as an operand: the attribute must exist.\<close>

fun operand :: "string \<Rightarrow> pyval option \<Rightarrow> error + real" where
  "operand name None = Inl (AttributeError name)"
| "operand name (Some v) = num v"


text \<open>
  Modelled from the spec: \<^verbatim>\<open>_SpikeTorchConv\<close> of \<^verbatim>\<open>lif.py\<close>, which is not among
  the sources. The spec (3, invariants, and 4.3): a slot bearing the marker is converted
  into a concrete zero tensor shaped like the reference input. The converter goes through
  the slots it is handed in order and builds that zero tensor for each of them, so a tensor
  handed over together with a marker comes back as zeros as well (here the model departs
  from the wording of 4.3, which lets real tensors pass through unchanged); a slot that
  holds \<^verbatim>\<open>False\<close> is no tensor, and the converter raises \<^verbatim>\<open>AttributeError\<close> on it.
  \<open>SpikeTorchConv_arg\<close> is the body of the converter's loop, \<open>SpikeTorchConv2\<close> and
  \<open>SpikeTorchConv3\<close> are the calls with two and with three slots.
\<close>

fun SpikeTorchConv_arg :: "pyval \<Rightarrow> error + pyval" where
  "SpikeTorchConv_arg SpikeTensor = Inr (Tensor 0 True)"
| "SpikeTorchConv_arg (Tensor v g) = Inr (Tensor 0 True)"
| "SpikeTorchConv_arg PyFalse = Inl (AttributeError ''bool object has no attribute to'')"

definition SpikeTorchConv2 :: "pyval \<Rightarrow> pyval \<Rightarrow> error + pyval \<times> pyval" where
  "SpikeTorchConv2 a b =
     (case SpikeTorchConv_arg a of
        Inl e \<Rightarrow> Inl e
      | Inr a' \<Rightarrow>
         (case SpikeTorchConv_arg b of
            Inl e \<Rightarrow> Inl e
          | Inr b' \<Rightarrow> Inr (a', b')))"

definition SpikeTorchConv3 :: "pyval \<Rightarrow> pyval \<Rightarrow> pyval \<Rightarrow> error + pyval \<times> pyval \<times> pyval" where
  "SpikeTorchConv3 a b c =
     (case SpikeTorchConv_arg a of
        Inl e \<Rightarrow> Inl e
      | Inr a' \<Rightarrow>
         (case SpikeTorchConv_arg b of
            Inl e \<Rightarrow> Inl e
          | Inr b' \<Rightarrow>
             (case SpikeTorchConv_arg c of
                Inl e \<Rightarrow> Inl e
              | Inr c' \<Rightarrow> Inr (a', b', c'))))"

text \<open>
  Modelled from the spec: \<^verbatim>\<open>init_rleaky\<close> and \<^verbatim>\<open>init_rsynaptic\<close> of the base
  class, not among the sources. The spec (3, invariants): state tensors carry the
  uninitialised marker until the first call.
\<close>

definition init_rleaky :: "pyval \<times> pyval" where
  "init_rleaky = (SpikeTensor, SpikeTensor)"

definition init_rsynaptic :: "pyval \<times> pyval \<times> pyval" where
  "init_rsynaptic = (SpikeTensor, SpikeTensor, SpikeTensor)"

section \<open>The instances\<close>

text \<open>
  The attributes of an \<^verbatim>\<open>RLeaky\<close> instance. \<^verbatim>\<open>reset_mechanism_val\<close> is the integer
  code the base class derives from the constructor's string: 0 for subtract, 1 for zero,
  2 for none (the comments of \<^verbatim>\<open>build_state_function\<close>). \<^verbatim>\<open>spk\<close> and \<^verbatim>\<open>mem\<close>
  are attributes only of an instance built with \<^verbatim>\<open>init_hidden=True\<close>; \<open>None\<close> is an
  attribute that does not exist. \<^verbatim>\<open>reset\<close> is assigned by \<^verbatim>\<open>forward\<close> before it is
  read. The attribute \<^verbatim>\<open>output\<close> is the field \<open>output_layer\<close>.
  \<^verbatim>\<open>state_fn\<close> is no field: \<^verbatim>\<open>__init__\<close> binds it to
  \<^verbatim>\<open>build_state_function_hidden\<close> exactly when \<^verbatim>\<open>init_hidden\<close> holds, and
  \<^verbatim>\<open>forward\<close> calls it in the branch of the same flag.

  An \<^verbatim>\<open>RSynaptic\<close> instance has all these attributes and \<^verbatim>\<open>alpha\<close> and \<^verbatim>\<open>syn\<close>
  besides, so its record extends the first; the classes are siblings under \<^verbatim>\<open>LIF\<close>.
\<close>

record RLeaky =
  beta :: real
  V :: real
  threshold :: real
  init_hidden :: bool
  inhibition :: bool
  reset_mechanism_val :: nat
  output_layer :: bool
  reset :: real
  spk :: "pyval option"
  mem :: "pyval option"

record RSynaptic = RLeaky +
  alpha :: real
  syn :: "pyval option"

text \<open>
  Modelled from the spec: \<^verbatim>\<open>mem_reset\<close>, \<^verbatim>\<open>fire\<close> and \<^verbatim>\<open>fire_inhibition\<close> of the
  base class, not among the sources. The spec (4.1): reset is one when the prior membrane
  exceeds the threshold and zero otherwise; \<^verbatim>\<open>fire\<close> is the same threshold compare on
  the new membrane. The class docstrings say the same: \<^verbatim>\<open>U[T] > U_thr\<close> gives
  \<^verbatim>\<open>S[T+1] = 1\<close>. The spec (4.3): under inhibition only the maximum-potential neuron
  of each batch row may spike, all others are forced to zero; the model follows a neuron
  that holds the maximum of its row.
\<close>

definition mem_reset :: "'a RLeaky_scheme \<Rightarrow> real \<Rightarrow> real" where
  "mem_reset self m = (if m - threshold self > 0 then 1 else 0)"

definition fire :: "'a RLeaky_scheme \<Rightarrow> real \<Rightarrow> real" where
  "fire self m = (if m - threshold self > 0 then 1 else 0)"

definition fire_inhibition :: "'a RLeaky_scheme \<Rightarrow> real \<Rightarrow> real" where
  "fire_inhibition self m = fire self m * 1"

section \<open>RLeaky\<close>

text \<open>\<^verbatim>\<open>RLeaky.__init__\<close>, with the reset mechanism already as its integer code.\<close>

definition RLeaky_init :: "real \<Rightarrow> real \<Rightarrow> real \<Rightarrow> bool \<Rightarrow> bool \<Rightarrow> nat \<Rightarrow> bool \<Rightarrow> RLeaky" where
  "RLeaky_init b v thr hid inh rm out =
     \<lparr> beta = b, V = v, threshold = thr, init_hidden = hid, inhibition = inh,
       reset_mechanism_val = rm, output_layer = out, reset = 0,
       spk = (if hid then Some (fst init_rleaky) else None),
       mem = (if hid then Some (snd init_rleaky) else None) \<rparr>"

definition RLeaky_base_state_function :: "RLeaky \<Rightarrow> real \<Rightarrow> real \<Rightarrow> real \<Rightarrow> real" where
  "RLeaky_base_state_function self input s m =
     clamp (beta self) 0 1 * m + input + V self * s"

text \<open>
  A call of \<^verbatim>\<open>self.base_state_function\<close> with the positional arguments as written
  at the call site. The method takes \<^verbatim>\<open>input_, spk, mem\<close>; Python raises
  \<^verbatim>\<open>TypeError\<close> for any other number of arguments.
\<close>

fun RLeaky_call_base_state_function :: "RLeaky \<Rightarrow> real list \<Rightarrow> error + real" where
  "RLeaky_call_base_state_function self [input, s, m] =
     Inr (RLeaky_base_state_function self input s m)"
| "RLeaky_call_base_state_function self args =
     Inl (TypeError ''base_state_function() missing 1 required positional argument'')"

text \<open>
  \<^verbatim>\<open>build_state_function\<close>. The zero branch calls
  \<^verbatim>\<open>self.base_state_function(input_, mem)\<close> first, with two arguments. A code other
  than 0, 1, 2 leaves \<^verbatim>\<open>state_fn\<close> unbound at the \<^verbatim>\<open>return\<close>.
\<close>

definition RLeaky_build_state_function :: "RLeaky \<Rightarrow> real \<Rightarrow> real \<Rightarrow> real \<Rightarrow> error + real" where
  "RLeaky_build_state_function self input s m =
     (if reset_mechanism_val self = 0 then
        (case RLeaky_call_base_state_function self [input, s, m] of
           Inl e \<Rightarrow> Inl e
         | Inr b \<Rightarrow> Inr (b - reset self * threshold self))
      else if reset_mechanism_val self = 1 then
        (case RLeaky_call_base_state_function self [input, m] of
           Inl e \<Rightarrow> Inl e
         | Inr b1 \<Rightarrow>
            (case RLeaky_call_base_state_function self [input, s, m] of
               Inl e \<Rightarrow> Inl e
             | Inr b2 \<Rightarrow> Inr (b1 - reset self * b2)))
      else if reset_mechanism_val self = 2 then
        RLeaky_call_base_state_function self [input, s, m]
      else Inl (UnboundLocalError ''state_fn''))"

text \<open>\<^verbatim>\<open>base_state_function_hidden\<close> reads \<^verbatim>\<open>self.mem\<close>, then \<^verbatim>\<open>self.spk\<close>.\<close>

definition RLeaky_base_state_function_hidden :: "RLeaky \<Rightarrow> real \<Rightarrow> error + real" where
  "RLeaky_base_state_function_hidden self input =
     (case operand ''mem'' (mem self) of
        Inl e \<Rightarrow> Inl e
      | Inr m \<Rightarrow>
         (case operand ''spk'' (spk self) of
            Inl e \<Rightarrow> Inl e
          | Inr s \<Rightarrow> Inr (clamp (beta self) 0 1 * m + input + V self * s)))"

definition RLeaky_build_state_function_hidden :: "RLeaky \<Rightarrow> real \<Rightarrow> error + real" where
  "RLeaky_build_state_function_hidden self input =
     (if reset_mechanism_val self = 0 then
        (case RLeaky_base_state_function_hidden self input of
           Inl e \<Rightarrow> Inl e
         | Inr b \<Rightarrow> Inr (b - reset self * threshold self))
      else if reset_mechanism_val self = 1 then
        (case RLeaky_base_state_function_hidden self input of
           Inl e \<Rightarrow> Inl e
         | Inr b1 \<Rightarrow>
            (case RLeaky_base_state_function_hidden self input of
               Inl e \<Rightarrow> Inl e
             | Inr b2 \<Rightarrow> Inr (b1 - reset self * b2)))
      else if reset_mechanism_val self = 2 then
        RLeaky_base_state_function_hidden self input
      else Inl (UnboundLocalError ''state_fn''))"

text \<open>\<^verbatim>\<open>_rleaky_forward_cases\<close>: \<open>Some\<close> is the exception raised.\<close>

definition RLeaky_forward_cases :: "pyval \<Rightarrow> pyval \<Rightarrow> error option" where
  "RLeaky_forward_cases spk0 mem0 =
     (if is_not_False mem0 \<or> is_not_False spk0
      then Some (TypeError ''When `init_hidden=True`, RLeaky expects 1 input argument.'')
      else None)"

text \<open>
  The first statement of \<^verbatim>\<open>forward\<close>, the lazy initialisation. It yields the instance
  and the two local variables as they are afterwards. \<^verbatim>\<open>self.mem\<close> is evaluated only
  when \<^verbatim>\<open>mem is False\<close>, and \<^verbatim>\<open>self.spk\<close> only when the marker was found.
  When the converter raises, nothing has been assigned.
\<close>

definition RLeaky_lazy_init :: "RLeaky \<Rightarrow> pyval \<Rightarrow> pyval \<Rightarrow> error + (RLeaky \<times> pyval \<times> pyval)" where
  "RLeaky_lazy_init self spk0 mem0 =
     (if hasattr_init_flag spk0 \<or> hasattr_init_flag mem0 then
        (case SpikeTorchConv2 spk0 mem0 of
           Inl e \<Rightarrow> Inl e
         | Inr (s, m) \<Rightarrow> Inr (self, s, m))
      else if is_False mem0 then
        (case mem self of
           None \<Rightarrow> Inl (AttributeError ''mem'')
         | Some mv \<Rightarrow>
            if hasattr_init_flag mv then
              (case spk self of
                 None \<Rightarrow> Inl (AttributeError ''spk'')
               | Some sv \<Rightarrow>
                  (case SpikeTorchConv2 sv mv of
                     Inl e \<Rightarrow> Inl e
                   | Inr (s, m) \<Rightarrow> Inr (self\<lparr>spk := Some s, mem := Some m\<rparr>, spk0, mem0)))
            else Inr (self, spk0, mem0))
      else Inr (self, spk0, mem0))"

text \<open>The branch \<^verbatim>\<open>if not self.init_hidden\<close> of \<^verbatim>\<open>forward\<close>.\<close>

definition RLeaky_forward_explicit :: "RLeaky \<Rightarrow> real \<Rightarrow> pyval \<Rightarrow> pyval \<Rightarrow> RLeaky \<times> (error + outputs)" where
  "RLeaky_forward_explicit self input spk1 mem1 =
     (case num mem1 of
        Inl e \<Rightarrow> (self, Inl e)
      | Inr m \<Rightarrow>
         (let self1 = self\<lparr>reset := mem_reset self m\<rparr> in
          (case num spk1 of
             Inl e \<Rightarrow> (self1, Inl e)
           | Inr s \<Rightarrow>
              (case RLeaky_build_state_function self1 input s m of
                 Inl e \<Rightarrow> (self1, Inl e)
               | Inr m' \<Rightarrow>
                  (self1,
                   Inr (Out_spk_mem
                          (if inhibition self1 then fire_inhibition self1 m' else fire self1 m')
                          m'))))))"

text \<open>The branch \<^verbatim>\<open>if self.init_hidden\<close> of \<^verbatim>\<open>forward\<close>.\<close>

definition RLeaky_forward_hidden :: "RLeaky \<Rightarrow> real \<Rightarrow> pyval \<Rightarrow> pyval \<Rightarrow> RLeaky \<times> (error + outputs)" where
  "RLeaky_forward_hidden self input spk1 mem1 =
     (case RLeaky_forward_cases spk1 mem1 of
        Some e \<Rightarrow> (self, Inl e)
      | None \<Rightarrow>
         (case operand ''mem'' (mem self) of
            Inl e \<Rightarrow> (self, Inl e)
          | Inr m \<Rightarrow>
             (let self1 = self\<lparr>reset := mem_reset self m\<rparr> in
              (case RLeaky_build_state_function_hidden self1 input of
                 Inl e \<Rightarrow> (self1, Inl e)
               | Inr m' \<Rightarrow>
                  (let self2 = self1\<lparr>mem := Some (Tensor m' True)\<rparr>;
                       s' = (if inhibition self2 then fire_inhibition self2 m'
                             else fire self2 m');
                       self3 = self2\<lparr>spk := Some (Tensor s' True)\<rparr>
                   in (self3,
                       Inr (if output_layer self3 then Out_spk_mem s' m' else Out_spk s')))))))"

text \<open>
  \<^verbatim>\<open>forward(self, input_, spk=False, mem=False)\<close>. The result is the instance as the
  call leaves it, also when the call raises, and the exception or the returned tuple.
\<close>

definition RLeaky_forward :: "RLeaky \<Rightarrow> real \<Rightarrow> pyval \<Rightarrow> pyval \<Rightarrow> RLeaky \<times> (error + outputs)" where
  "RLeaky_forward self input spk0 mem0 =
     (case RLeaky_lazy_init self spk0 mem0 of
        Inl e \<Rightarrow> (self, Inl e)
      | Inr (self1, spk1, mem1) \<Rightarrow>
         if \<not> init_hidden self1 then RLeaky_forward_explicit self1 input spk1 mem1
         else RLeaky_forward_hidden self1 input spk1 mem1)"

section \<open>RSynaptic\<close>

text \<open>\<^verbatim>\<open>RSynaptic.__init__\<close>, with the reset mechanism already as its integer code.\<close>

definition RSynaptic_init :: "real \<Rightarrow> real \<Rightarrow> real \<Rightarrow> real \<Rightarrow> bool \<Rightarrow> bool \<Rightarrow> nat \<Rightarrow> bool \<Rightarrow> RSynaptic" where
  "RSynaptic_init a b v thr hid inh rm out =
     \<lparr> beta = b, V = v, threshold = thr, init_hidden = hid, inhibition = inh,
       reset_mechanism_val = rm, output_layer = out, reset = 0,
       spk = (if hid then Some (fst init_rsynaptic) else None),
       mem = (if hid then Some (snd (snd init_rsynaptic)) else None),
       alpha = a,
       syn = (if hid then Some (fst (snd init_rsynaptic)) else None) \<rparr>"

text \<open>\<^verbatim>\<open>tuple(map(f, a, b))\<close> on two pairs.\<close>

fun tuple_map :: "(real \<Rightarrow> real \<Rightarrow> real) \<Rightarrow> real \<times> real \<Rightarrow> real \<times> real \<Rightarrow> real \<times> real" where
  "tuple_map f (x1, x2) (y1, y2) = (f x1 y1, f x2 y2)"

definition RSynaptic_base_state_function :: "RSynaptic \<Rightarrow> real \<Rightarrow> real \<Rightarrow> real \<Rightarrow> real \<Rightarrow> real \<times> real" where
  "RSynaptic_base_state_function self input s sy m =
     (let base_fn_syn = clamp (alpha self) 0 1 * sy + input + V self * s;
          base_fn_mem = clamp (beta self) 0 1 * m + base_fn_syn
      in (base_fn_syn, base_fn_mem))"

definition RSynaptic_base_state_reset_zero :: "RSynaptic \<Rightarrow> real \<Rightarrow> real \<Rightarrow> real \<Rightarrow> real \<Rightarrow> real \<times> real" where
  "RSynaptic_base_state_reset_zero self input s sy m =
     (let base_fn_syn = clamp (alpha self) 0 1 * sy + input + V self * s;
          base_fn_mem = clamp (beta self) 0 1 * m + base_fn_syn
      in (0, base_fn_mem))"

definition RSynaptic_build_state_function :: "RSynaptic \<Rightarrow> real \<Rightarrow> real \<Rightarrow> real \<Rightarrow> real \<Rightarrow> error + real \<times> real" where
  "RSynaptic_build_state_function self input s sy m =
     (if reset_mechanism_val self = 0 then
        Inr (tuple_map (\<lambda>x y. x - y)
               (RSynaptic_base_state_function self input s sy m)
               (0, reset self * threshold self))
      else if reset_mechanism_val self = 1 then
        Inr (tuple_map (\<lambda>x y. x - reset self * y)
               (RSynaptic_base_state_function self input s sy m)
               (RSynaptic_base_state_reset_zero self input s sy m))
      else if reset_mechanism_val self = 2 then
        Inr (RSynaptic_base_state_function self input s sy m)
      else Inl (UnboundLocalError ''state_fn''))"

text \<open>The hidden variants read \<^verbatim>\<open>self.syn\<close>, \<^verbatim>\<open>self.spk\<close> and \<^verbatim>\<open>self.mem\<close>, in
  this order.\<close>

definition RSynaptic_base_state_function_hidden :: "RSynaptic \<Rightarrow> real \<Rightarrow> error + real \<times> real" where
  "RSynaptic_base_state_function_hidden self input =
     (case operand ''syn'' (syn self) of
        Inl e \<Rightarrow> Inl e
      | Inr sy \<Rightarrow>
         (case operand ''spk'' (spk self) of
            Inl e \<Rightarrow> Inl e
          | Inr s \<Rightarrow>
             (case operand ''mem'' (mem self) of
                Inl e \<Rightarrow> Inl e
              | Inr m \<Rightarrow>
                 (let base_fn_syn = clamp (alpha self) 0 1 * sy + input + V self * s;
                      base_fn_mem = clamp (beta self) 0 1 * m + base_fn_syn
                  in Inr (base_fn_syn, base_fn_mem)))))"

definition RSynaptic_base_state_reset_zero_hidden :: "RSynaptic \<Rightarrow> real \<Rightarrow> error + real \<times> real" where
  "RSynaptic_base_state_reset_zero_hidden self input =
     (case operand ''syn'' (syn self) of
        Inl e \<Rightarrow> Inl e
      | Inr sy \<Rightarrow>
         (case operand ''spk'' (spk self) of
            Inl e \<Rightarrow> Inl e
          | Inr s \<Rightarrow>
             (case operand ''mem'' (mem self) of
                Inl e \<Rightarrow> Inl e
              | Inr m \<Rightarrow>
                 (let base_fn_syn = clamp (alpha self) 0 1 * sy + input + V self * s;
                      base_fn_mem = clamp (beta self) 0 1 * m + base_fn_syn
                  in Inr (0, base_fn_mem)))))"

text \<open>
  \<^verbatim>\<open>build_state_function_hidden\<close>. Its zero branch maps over
  \<^verbatim>\<open>base_state_function_hidden\<close> twice; \<^verbatim>\<open>base_state_reset_zero_hidden\<close> is
  called nowhere.
\<close>

definition RSynaptic_build_state_function_hidden :: "RSynaptic \<Rightarrow> real \<Rightarrow> error + real \<times> real" where
  "RSynaptic_build_state_function_hidden self input =
     (if reset_mechanism_val self = 0 then
        (case RSynaptic_base_state_function_hidden self input of
           Inl e \<Rightarrow> Inl e
         | Inr b \<Rightarrow> Inr (tuple_map (\<lambda>x y. x - y) b (0, reset self * threshold self)))
      else if reset_mechanism_val self = 1 then
        (case RSynaptic_base_state_function_hidden self input of
           Inl e \<Rightarrow> Inl e
         | Inr b1 \<Rightarrow>
            (case RSynaptic_base_state_function_hidden self input of
               Inl e \<Rightarrow> Inl e
             | Inr b2 \<Rightarrow> Inr (tuple_map (\<lambda>x y. x - reset self * y) b1 b2)))
      else if reset_mechanism_val self = 2 then
        RSynaptic_base_state_function_hidden self input
      else Inl (UnboundLocalError ''state_fn''))"

text \<open>\<^verbatim>\<open>_rsynaptic_forward_cases(spk, mem, syn)\<close>.\<close>

definition RSynaptic_forward_cases :: "pyval \<Rightarrow> pyval \<Rightarrow> pyval \<Rightarrow> error option" where
  "RSynaptic_forward_cases spk0 mem0 syn0 =
     (if is_not_False mem0 \<or> is_not_False syn0 \<or> is_not_False spk0
      then Some (TypeError ''When `init_hidden=True`, RSynaptic expects 1 input argument.'')
      else None)"

definition RSynaptic_lazy_init :: "RSynaptic \<Rightarrow> pyval \<Rightarrow> pyval \<Rightarrow> pyval \<Rightarrow> error + (RSynaptic \<times> pyval \<times> pyval \<times> pyval)" where
  "RSynaptic_lazy_init self spk0 syn0 mem0 =
     (if hasattr_init_flag spk0 \<or> hasattr_init_flag syn0 \<or> hasattr_init_flag mem0 then
        (case SpikeTorchConv3 spk0 syn0 mem0 of
           Inl e \<Rightarrow> Inl e
         | Inr (s, y, m) \<Rightarrow> Inr (self, s, y, m))
      else if is_False mem0 then
        (case mem self of
           None \<Rightarrow> Inl (AttributeError ''mem'')
         | Some mv \<Rightarrow>
            if hasattr_init_flag mv then
              (case spk self of
                 None \<Rightarrow> Inl (AttributeError ''spk'')
               | Some sv \<Rightarrow>
                  (case syn self of
                     None \<Rightarrow> Inl (AttributeError ''syn'')
                   | Some yv \<Rightarrow>
                      (case SpikeTorchConv3 sv yv mv of
                         Inl e \<Rightarrow> Inl e
                       | Inr (s, y, m) \<Rightarrow>
                          Inr (self\<lparr>spk := Some s, syn := Some y, mem := Some m\<rparr>,
                               spk0, syn0, mem0))))
            else Inr (self, spk0, syn0, mem0))
      else Inr (self, spk0, syn0, mem0))"

definition RSynaptic_forward_explicit :: "RSynaptic \<Rightarrow> real \<Rightarrow> pyval \<Rightarrow> pyval \<Rightarrow> pyval \<Rightarrow> RSynaptic \<times> (error + outputs)" where
  "RSynaptic_forward_explicit self input spk1 syn1 mem1 =
     (case num mem1 of
        Inl e \<Rightarrow> (self, Inl e)
      | Inr m \<Rightarrow>
         (let self1 = self\<lparr>reset := mem_reset self m\<rparr> in
          (case num syn1 of
             Inl e \<Rightarrow> (self1, Inl e)
           | Inr sy \<Rightarrow>
              (case num spk1 of
                 Inl e \<Rightarrow> (self1, Inl e)
               | Inr s \<Rightarrow>
                  (case RSynaptic_build_state_function self1 input s sy m of
                     Inl e \<Rightarrow> (self1, Inl e)
                   | Inr (sy', m') \<Rightarrow>
                      (self1,
                       Inr (Out_spk_syn_mem
                              (if inhibition self1 then fire_inhibition self1 m'
                               else fire self1 m')
                              sy' m')))))))"

definition RSynaptic_forward_hidden :: "RSynaptic \<Rightarrow> real \<Rightarrow> pyval \<Rightarrow> pyval \<Rightarrow> pyval \<Rightarrow> RSynaptic \<times> (error + outputs)" where
  "RSynaptic_forward_hidden self input spk1 syn1 mem1 =
     (case RSynaptic_forward_cases spk1 mem1 syn1 of
        Some e \<Rightarrow> (self, Inl e)
      | None \<Rightarrow>
         (case operand ''mem'' (mem self) of
            Inl e \<Rightarrow> (self, Inl e)
          | Inr m \<Rightarrow>
             (let self1 = self\<lparr>reset := mem_reset self m\<rparr> in
              (case RSynaptic_build_state_function_hidden self1 input of
                 Inl e \<Rightarrow> (self1, Inl e)
               | Inr (sy', m') \<Rightarrow>
                  (let self2 = self1\<lparr>syn := Some (Tensor sy' True), mem := Some (Tensor m' True)\<rparr>;
                       s' = (if inhibition self2 then fire_inhibition self2 m'
                             else fire self2 m');
                       self3 = self2\<lparr>spk := Some (Tensor s' True)\<rparr>
                   in (self3,
                       Inr (if output_layer self3 then Out_spk_syn_mem s' sy' m'
                            else Out_spk s')))))))"

text \<open>\<^verbatim>\<open>forward(self, input_, spk=False, syn=False, mem=False)\<close>.\<close>

definition RSynaptic_forward :: "RSynaptic \<Rightarrow> real \<Rightarrow> pyval \<Rightarrow> pyval \<Rightarrow> pyval \<Rightarrow> RSynaptic \<times> (error + outputs)" where
  "RSynaptic_forward self input spk0 syn0 mem0 =
     (case RSynaptic_lazy_init self spk0 syn0 mem0 of
        Inl e \<Rightarrow> (self, Inl e)
      | Inr (self1, spk1, syn1, mem1) \<Rightarrow>
         if \<not> init_hidden self1 then RSynaptic_forward_explicit self1 input spk1 syn1 mem1
         else RSynaptic_forward_hidden self1 input spk1 syn1 mem1)"

section \<open>The class-level operations on the instance registry\<close>




text \<open>The body of the loop of \<^verbatim>\<open>RLeaky.reset_hidden\<close>: one assignment.\<close>

definition RLeaky_reset :: "RLeaky \<Rightarrow> RLeaky" where
  "RLeaky_reset self = self\<lparr>mem := Some SpikeTensor\<rparr>"




definition RSynaptic_reset :: "RSynaptic \<Rightarrow> RSynaptic" where
  "RSynaptic_reset self = self\<lparr>syn := Some SpikeTensor, mem := Some SpikeTensor\<rparr>"



text \<open>The definitions that a concrete call unfolds to.\<close>

lemmas forward_defs = RLeaky_init_def RSynaptic_init_def init_rleaky_def init_rsynaptic_def
  RLeaky_forward_def RLeaky_lazy_init_def RLeaky_forward_explicit_def RLeaky_forward_hidden_def
  RLeaky_forward_cases_def RLeaky_build_state_function_def RLeaky_build_state_function_hidden_def
  RLeaky_base_state_function_def RLeaky_base_state_function_hidden_def
  RSynaptic_forward_def RSynaptic_lazy_init_def RSynaptic_forward_explicit_def
  RSynaptic_forward_hidden_def RSynaptic_forward_cases_def RSynaptic_build_state_function_def
  RSynaptic_build_state_function_hidden_def RSynaptic_base_state_function_def
  RSynaptic_base_state_function_hidden_def RSynaptic_base_state_reset_zero_def
  RLeaky_reset_def RSynaptic_reset_def SpikeTorchConv2_def SpikeTorchConv3_def
  mem_reset_def fire_def fire_inhibition_def clamp_def Let_def

section \<open>The reset policies of the state functions\<close>

text \<open>
  C5: with the subtract policy (code 0) the new membrane is the base value minus
  \<^verbatim>\<open>reset * threshold\<close>: the base minus the threshold when reset is one, the base
  when reset is zero, for \<^verbatim>\<open>RLeaky\<close> and \<^verbatim>\<open>RSynaptic\<close>, with explicit and with
  hidden state; the subtract branch of \<^verbatim>\<open>RSynaptic\<close> returns the synaptic base value
  as it is, whatever the reset.
\<close>

theorem subtract_reset_membrane:
  assumes "reset_mechanism_val self = 0" and "reset_mechanism_val ys = 0"
  shows "RLeaky_build_state_function self x s m =
           Inr (RLeaky_base_state_function self x s m - reset self * threshold self)
       \<and> (reset self = 1 \<longrightarrow> RLeaky_build_state_function self x s m =
             Inr (RLeaky_base_state_function self x s m - threshold self))
       \<and> (reset self = 0 \<longrightarrow> RLeaky_build_state_function self x s m =
             Inr (RLeaky_base_state_function self x s m))
       \<and> (RLeaky_base_state_function_hidden self x = Inr b \<longrightarrow>
             RLeaky_build_state_function_hidden self x = Inr (b - reset self * threshold self))
       \<and> RSynaptic_build_state_function ys x s sy m =
             Inr (fst (RSynaptic_base_state_function ys x s sy m),
                  snd (RSynaptic_base_state_function ys x s sy m) - reset ys * threshold ys)
       \<and> (RSynaptic_base_state_function_hidden ys x = Inr (bs, bm) \<longrightarrow>
             RSynaptic_build_state_function_hidden ys x = Inr (bs, bm - reset ys * threshold ys))"
  using assms
  by (simp add: RLeaky_build_state_function_def RLeaky_build_state_function_hidden_def
      RSynaptic_build_state_function_def RSynaptic_build_state_function_hidden_def
      RSynaptic_base_state_function_def Let_def)

theorem subtract_reset_membrane_witness:
  "reset_mechanism_val (RLeaky_init (1/2) 1 1 False False 0 False\<lparr>reset := 1\<rparr>) = 0
   \<and> RLeaky_build_state_function (RLeaky_init (1/2) 1 1 False False 0 False\<lparr>reset := 1\<rparr>) 1 1 2 = Inr 2
   \<and> RSynaptic_build_state_function
        (RSynaptic_init (1/2) (1/2) 1 1 False False 0 False\<lparr>reset := 1\<rparr>) 1 1 1 2 = Inr (5/2, 5/2)"
  using subtract_reset_membrane
    [where self = "RLeaky_init (1/2) 1 1 False False 0 False\<lparr>reset := 1\<rparr>"
       and ys = "RSynaptic_init (1/2) (1/2) 1 1 False False 0 False\<lparr>reset := 1\<rparr>"
       and x = 1 and s = 1 and sy = 1 and m = 2]
  by (simp add: RLeaky_init_def RSynaptic_init_def RLeaky_base_state_function_def
      RSynaptic_base_state_function_def clamp_def Let_def)

text \<open>
  C8: with the policy none (code 2) the new membrane is the base value, whatever the
  threshold and the reset indicator of the instance are, for both classes and both
  calling conventions; the synaptic current of \<^verbatim>\<open>RSynaptic\<close> is the synaptic base
  value.
\<close>

theorem none_reset_membrane:
  assumes "reset_mechanism_val self = 2" and "reset_mechanism_val ys = 2"
  shows "RLeaky_build_state_function (self\<lparr>threshold := t, reset := r\<rparr>) x s m =
           Inr (RLeaky_base_state_function self x s m)
       \<and> (RLeaky_base_state_function_hidden self x = Inr b \<longrightarrow>
            RLeaky_build_state_function_hidden (self\<lparr>threshold := t, reset := r\<rparr>) x = Inr b)
       \<and> RSynaptic_build_state_function (ys\<lparr>threshold := t, reset := r\<rparr>) x s sy m =
           Inr (RSynaptic_base_state_function ys x s sy m)
       \<and> (RSynaptic_base_state_function_hidden ys x = Inr (bs, bm) \<longrightarrow>
            RSynaptic_build_state_function_hidden (ys\<lparr>threshold := t, reset := r\<rparr>) x = Inr (bs, bm))"
  using assms
  by (simp add: RLeaky_build_state_function_def RLeaky_build_state_function_hidden_def
      RSynaptic_build_state_function_def RSynaptic_build_state_function_hidden_def
      RSynaptic_base_state_function_def RLeaky_base_state_function_def
      RLeaky_base_state_function_hidden_def RSynaptic_base_state_function_hidden_def Let_def
      split: sum.splits)

theorem none_reset_membrane_witness:
  "reset_mechanism_val (RLeaky_init (1/2) 1 1 False False 2 False) = 2
   \<and> RLeaky_build_state_function
        (RLeaky_init (1/2) 1 1 False False 2 False\<lparr>threshold := 7, reset := 1\<rparr>) 1 1 2 = Inr 3
   \<and> RSynaptic_build_state_function
        (RSynaptic_init (1/2) (1/2) 1 1 False False 2 False\<lparr>threshold := 7, reset := 1\<rparr>) 1 1 1 2
       = Inr (5/2, 7/2)"
  using none_reset_membrane
    [where self = "RLeaky_init (1/2) 1 1 False False 2 False"
       and ys = "RSynaptic_init (1/2) (1/2) 1 1 False False 2 False"
       and t = 7 and r = 1 and x = 1 and s = 1 and sy = 1 and m = 2]
  by (simp add: RLeaky_init_def RSynaptic_init_def RLeaky_base_state_function_def
      RSynaptic_base_state_function_def clamp_def Let_def)

text \<open>
  C1, as the claim states it, fails with explicit state: with the zero policy (code 1)
  and reset one, \<^verbatim>\<open>build_state_function\<close> of \<^verbatim>\<open>RSynaptic\<close> subtracts
  \<^verbatim>\<open>reset * 0\<close> from the synaptic base value, the first component of
  \<^verbatim>\<open>base_state_reset_zero\<close>. At input 1, previous spike 0, synaptic current 0 and
  membrane 2 the synaptic base value is 1 and so is the new synaptic current, not
  \<open>1 - 1 * 1\<close>.
\<close>

theorem RSynaptic_zero_explicit_syn_counterexample:
  "reset_mechanism_val (RSynaptic_init (1/2) (1/2) 1 1 False False 1 False\<lparr>reset := 1\<rparr>) = 1
   \<and> reset (RSynaptic_init (1/2) (1/2) 1 1 False False 1 False\<lparr>reset := 1\<rparr>) = 1
   \<and> RSynaptic_base_state_function
        (RSynaptic_init (1/2) (1/2) 1 1 False False 1 False\<lparr>reset := 1\<rparr>) 1 0 0 2 = (1, 2)
   \<and> RSynaptic_build_state_function
        (RSynaptic_init (1/2) (1/2) 1 1 False False 1 False\<lparr>reset := 1\<rparr>) 1 0 0 2 = Inr (1, 0)
   \<and> RSynaptic_build_state_function
        (RSynaptic_init (1/2) (1/2) 1 1 False False 1 False\<lparr>reset := 1\<rparr>) 1 0 0 2
       \<noteq> Inr (1 - 1 * 1, 2 - 1 * 2)
   \<and> snd (RSynaptic_forward (RSynaptic_init (1/2) (1/2) 1 1 False False 1 False) 1
             (Tensor 0 False) (Tensor 0 False) (Tensor 2 False))
       = Inr (Out_spk_syn_mem 0 1 0)"
  by (simp add: RSynaptic_init_def RSynaptic_base_state_function_def
      RSynaptic_base_state_reset_zero_def RSynaptic_build_state_function_def
      RSynaptic_forward_def RSynaptic_lazy_init_def RSynaptic_forward_explicit_def
      mem_reset_def fire_def clamp_def Let_def)

text \<open>
  C1, amended: with the zero policy and explicit state the new synaptic current is the
  synaptic base value, unchanged by the reset, and the new membrane is the membrane base
  value minus reset times itself, which is zero when reset is one; with hidden state
  the new membrane is again the membrane base value minus reset times itself.
\<close>

theorem RSynaptic_zero_reset:
  assumes "reset_mechanism_val ys = 1"
  shows "RSynaptic_build_state_function ys x s sy m =
           Inr (fst (RSynaptic_base_state_function ys x s sy m),
                snd (RSynaptic_base_state_function ys x s sy m)
                  - reset ys * snd (RSynaptic_base_state_function ys x s sy m))
       \<and> (reset ys = 1 \<longrightarrow> RSynaptic_build_state_function ys x s sy m =
             Inr (fst (RSynaptic_base_state_function ys x s sy m), 0))
       \<and> (RSynaptic_base_state_function_hidden ys x = Inr (bs, bm) \<longrightarrow>
             map_sum id snd (RSynaptic_build_state_function_hidden ys x) = Inr (bm - reset ys * bm))
       \<and> (RSynaptic_base_state_function_hidden ys x = Inr (bs, bm) \<and> reset ys = 1 \<longrightarrow>
             map_sum id snd (RSynaptic_build_state_function_hidden ys x) = Inr 0)"
  using assms
  by (simp add: RSynaptic_build_state_function_def RSynaptic_build_state_function_hidden_def
      RSynaptic_base_state_function_def RSynaptic_base_state_reset_zero_def Let_def)

theorem RSynaptic_zero_reset_witness:
  "reset_mechanism_val (RSynaptic_init (1/2) (1/2) 1 1 False False 1 False\<lparr>reset := 1\<rparr>) = 1
   \<and> RSynaptic_build_state_function
        (RSynaptic_init (1/2) (1/2) 1 1 False False 1 False\<lparr>reset := 1\<rparr>) 1 0 0 2 = Inr (1, 0)"
  using RSynaptic_zero_reset
    [where ys = "RSynaptic_init (1/2) (1/2) 1 1 False False 1 False\<lparr>reset := 1\<rparr>"
       and x = 1 and s = 0 and sy = 0 and m = 2]
  by (simp add: RSynaptic_init_def RSynaptic_base_state_function_def clamp_def Let_def)

text \<open>
  What \<^verbatim>\<open>build_state_function_hidden\<close> of \<^verbatim>\<open>RSynaptic\<close> does to the synaptic
  current under the zero policy: it maps over \<^verbatim>\<open>base_state_function_hidden\<close> twice,
  so the synaptic base value is subtracted from itself as well.
\<close>

lemma RSynaptic_zero_hidden_observed:
  assumes "reset_mechanism_val ys = 1"
    and "RSynaptic_base_state_function_hidden ys x = Inr (bs, bm)"
  shows "RSynaptic_build_state_function_hidden ys x =
           Inr (bs - reset ys * bs, bm - reset ys * bm)"
  using assms by (simp add: RSynaptic_build_state_function_hidden_def)

text \<open>
  C2: the claim is that \<^verbatim>\<open>RLeaky\<close> with the zero policy returns the base value minus
  reset times the base value, with explicit and with hidden state. With explicit state
  the code raises instead: the zero branch of \<^verbatim>\<open>build_state_function\<close> calls
  \<^verbatim>\<open>self.base_state_function(input_, mem)\<close>, one argument short. Evaluated at
  \<open>\<beta> = 1/2\<close>, \<open>V = 1\<close>, threshold 1, input 1, spike 0 and membrane 2.
\<close>

theorem RLeaky_zero_explicit_raises:
  "RLeaky_build_state_function (RLeaky_init (1/2) 1 1 False False 1 False\<lparr>reset := 1\<rparr>) 1 0 2
     = Inl (TypeError ''base_state_function() missing 1 required positional argument'')
   \<and> snd (RLeaky_forward (RLeaky_init (1/2) 1 1 False False 1 False) 1
             (Tensor 0 False) (Tensor 2 False))
     = Inl (TypeError ''base_state_function() missing 1 required positional argument'')"
  by (simp add: RLeaky_init_def RLeaky_build_state_function_def RLeaky_forward_def
      RLeaky_lazy_init_def RLeaky_forward_explicit_def mem_reset_def Let_def)

text \<open>The same holds of every explicit call under the zero policy, while the hidden
  variant computes what the docstring of the class gives.\<close>

lemma RLeaky_zero_explicit_always_raises:
  assumes "reset_mechanism_val self = 1"
  shows "RLeaky_build_state_function self x s m
     = Inl (TypeError ''base_state_function() missing 1 required positional argument'')"
  using assms by (simp add: RLeaky_build_state_function_def)

lemma RLeaky_zero_hidden:
  assumes "reset_mechanism_val self = 1"
    and "RLeaky_base_state_function_hidden self x = Inr b"
  shows "RLeaky_build_state_function_hidden self x = Inr (b - reset self * b)"
  using assms by (simp add: RLeaky_build_state_function_hidden_def)

section \<open>The scenario of three steps\<close>

text \<open>
  C4, as the claim states it, fails at its first step: with \<open>\<beta> = 1/2\<close>, \<open>V = 1\<close>,
  threshold 1, the subtract policy and explicit state, input 1 on spike 0 and membrane 0
  gives the new membrane 1, which does not exceed the threshold, so the spike is 0 and
  not 1.
\<close>

theorem scenario_first_spike_counterexample:
  "snd (RLeaky_forward (RLeaky_init (1/2) 1 1 False False 0 False) 1 (Tensor 0 False) (Tensor 0 False))
     = Inr (Out_spk_mem 0 1)
   \<and> snd (RLeaky_forward (RLeaky_init (1/2) 1 1 False False 0 False) 1 (Tensor 0 False) (Tensor 0 False))
     \<noteq> Inr (Out_spk_mem 1 1)"
  by (simp add: forward_defs)

text \<open>
  C4, amended: on the inputs 1, 1, 1 from spike 0 and membrane 0 the three steps are:
  base 1, reset 0, new membrane 1, spike 0; then base \<open>3/2\<close>, reset 0, new membrane
  \<open>3/2\<close>, spike 1; then base \<open>11/4\<close>, reset 1, new membrane \<open>7/4\<close>, spike 1.
  Spike and reset are one exactly when the membrane is greater than the threshold.
\<close>

theorem scenario_three_steps:
  "RLeaky_base_state_function (RLeaky_init (1/2) 1 1 False False 0 False) 1 0 0 = 1
   \<and> RLeaky_forward (RLeaky_init (1/2) 1 1 False False 0 False) 1 (Tensor 0 False) (Tensor 0 False)
       = (RLeaky_init (1/2) 1 1 False False 0 False\<lparr>reset := 0\<rparr>, Inr (Out_spk_mem 0 1))
   \<and> RLeaky_base_state_function (RLeaky_init (1/2) 1 1 False False 0 False\<lparr>reset := 0\<rparr>) 1 0 1 = 3/2
   \<and> RLeaky_forward (RLeaky_init (1/2) 1 1 False False 0 False\<lparr>reset := 0\<rparr>) 1
         (Tensor 0 True) (Tensor 1 True)
       = (RLeaky_init (1/2) 1 1 False False 0 False\<lparr>reset := 0\<rparr>, Inr (Out_spk_mem 1 (3/2)))
   \<and> RLeaky_base_state_function (RLeaky_init (1/2) 1 1 False False 0 False\<lparr>reset := 0\<rparr>) 1 1 (3/2) = 11/4
   \<and> RLeaky_forward (RLeaky_init (1/2) 1 1 False False 0 False\<lparr>reset := 0\<rparr>) 1
         (Tensor 1 True) (Tensor (3/2) True)
       = (RLeaky_init (1/2) 1 1 False False 0 False\<lparr>reset := 1\<rparr>, Inr (Out_spk_mem 1 (7/4)))"
  by (simp add: forward_defs)

section \<open>The reset indicator\<close>















section \<open>Explicit state given to an instance with hidden state\<close>

text \<open>
  C7, as the claim states it, fails on an instance whose hidden state is still
  uninitialised: \<^verbatim>\<open>forward\<close> runs the lazy initialisation before
  \<^verbatim>\<open>_rleaky_forward_cases\<close>, so a call with \<^verbatim>\<open>spk\<close> given and \<^verbatim>\<open>mem\<close> left at
  its default replaces the markers in \<^verbatim>\<open>self.spk\<close> and \<^verbatim>\<open>self.mem\<close> by zero
  tensors and raises afterwards.
\<close>

theorem hidden_usage_error_after_lazy_init_counterexample:
  "init_hidden (RLeaky_init (1/2) 1 1 True False 0 False)
   \<and> snd (RLeaky_forward (RLeaky_init (1/2) 1 1 True False 0 False) 1 (Tensor 1 False) PyFalse)
       = Inl (TypeError ''When `init_hidden=True`, RLeaky expects 1 input argument.'')
   \<and> mem (RLeaky_init (1/2) 1 1 True False 0 False) = Some SpikeTensor
   \<and> mem (fst (RLeaky_forward (RLeaky_init (1/2) 1 1 True False 0 False) 1 (Tensor 1 False) PyFalse))
       = Some (Tensor 0 True)
   \<and> fst (RLeaky_forward (RLeaky_init (1/2) 1 1 True False 0 False) 1 (Tensor 1 False) PyFalse)
       \<noteq> RLeaky_init (1/2) 1 1 True False 0 False"
  by (simp add: forward_defs)

lemma is_False_not: "is_False v = (\<not> is_not_False v)"
  by (cases v) simp_all

lemma conv_arg_not_False:
  "is_not_False v \<Longrightarrow> SpikeTorchConv_arg v = Inr (Tensor 0 True)"
  by (cases v) simp_all

lemma RLeaky_hidden_raises:
  "is_not_False s1 \<or> is_not_False m1 \<Longrightarrow>
   RLeaky_forward_hidden self x s1 m1
     = (self, Inl (TypeError ''When `init_hidden=True`, RLeaky expects 1 input argument.''))"
  by (simp add: RLeaky_forward_hidden_def RLeaky_forward_cases_def disj_commute)

lemma RSynaptic_hidden_raises:
  "is_not_False s1 \<or> is_not_False y1 \<or> is_not_False m1 \<Longrightarrow>
   RSynaptic_forward_hidden self x s1 y1 m1
     = (self, Inl (TypeError ''When `init_hidden=True`, RSynaptic expects 1 input argument.''))"
  by (auto simp add: RSynaptic_forward_hidden_def RSynaptic_forward_cases_def)

lemma RLeaky_lazy_init_usage:
  assumes "spk self = Some sv" and "mem self = Some mv" and "is_not_False sv"
    and "(\<not> hasattr_init_flag spk0 \<and> \<not> hasattr_init_flag mem0)
         \<or> (is_not_False spk0 \<and> is_not_False mem0)"
  shows "RLeaky_lazy_init self spk0 mem0
     = (if hasattr_init_flag spk0 \<or> hasattr_init_flag mem0
        then Inr (self, Tensor 0 True, Tensor 0 True)
        else if is_False mem0 \<and> hasattr_init_flag mv
        then Inr (self\<lparr>spk := Some (Tensor 0 True), mem := Some (Tensor 0 True)\<rparr>, spk0, mem0)
        else Inr (self, spk0, mem0))"
proof (cases "hasattr_init_flag spk0 \<or> hasattr_init_flag mem0")
  case True
  with assms(4) have "is_not_False spk0" "is_not_False mem0" by auto
  with True show ?thesis
    by (simp add: RLeaky_lazy_init_def SpikeTorchConv2_def conv_arg_not_False)
next
  case False
  have "hasattr_init_flag mv \<Longrightarrow> SpikeTorchConv_arg mv = Inr (Tensor 0 True)"
    by (cases mv) simp_all
  with False assms(1-3) show ?thesis
    by (simp add: RLeaky_lazy_init_def SpikeTorchConv2_def conv_arg_not_False)
qed

lemma RSynaptic_lazy_init_usage:
  assumes "spk ys = Some sv" and "syn ys = Some yv" and "mem ys = Some mv"
    and "is_not_False sv" and "is_not_False yv"
    and "(\<not> hasattr_init_flag spk0 \<and> \<not> hasattr_init_flag syn0 \<and> \<not> hasattr_init_flag mem0)
         \<or> (is_not_False spk0 \<and> is_not_False syn0 \<and> is_not_False mem0)"
  shows "RSynaptic_lazy_init ys spk0 syn0 mem0
     = (if hasattr_init_flag spk0 \<or> hasattr_init_flag syn0 \<or> hasattr_init_flag mem0
        then Inr (ys, Tensor 0 True, Tensor 0 True, Tensor 0 True)
        else if is_False mem0 \<and> hasattr_init_flag mv
        then Inr (ys\<lparr>spk := Some (Tensor 0 True), syn := Some (Tensor 0 True),
                      mem := Some (Tensor 0 True)\<rparr>, spk0, syn0, mem0)
        else Inr (ys, spk0, syn0, mem0))"
proof (cases "hasattr_init_flag spk0 \<or> hasattr_init_flag syn0 \<or> hasattr_init_flag mem0")
  case True
  with assms(6) have "is_not_False spk0" "is_not_False syn0" "is_not_False mem0" by auto
  with True show ?thesis
    by (simp add: RSynaptic_lazy_init_def SpikeTorchConv3_def conv_arg_not_False)
next
  case False
  have "hasattr_init_flag mv \<Longrightarrow> SpikeTorchConv_arg mv = Inr (Tensor 0 True)"
    by (cases mv) simp_all
  with False assms(1-5) show ?thesis
    by (simp add: RSynaptic_lazy_init_def SpikeTorchConv3_def conv_arg_not_False)
qed

text \<open>
  A marker passed together with an argument left at its default never reaches the check
  of the call pattern: the converter raises on \<^verbatim>\<open>False\<close>. The instance is as before.
\<close>

lemma RLeaky_marker_with_default:
  "RLeaky_forward self x SpikeTensor PyFalse
     = (self, Inl (AttributeError ''bool object has no attribute to''))"
  by (simp add: RLeaky_forward_def RLeaky_lazy_init_def SpikeTorchConv2_def)

lemma RSynaptic_marker_with_default:
  "RSynaptic_forward ys x SpikeTensor PyFalse PyFalse
     = (ys, Inl (AttributeError ''bool object has no attribute to''))"
  by (simp add: RSynaptic_forward_def RSynaptic_lazy_init_def SpikeTorchConv3_def)

text \<open>
  C7, amended: on an instance with hidden state, \<^verbatim>\<open>forward\<close> with a state argument
  that is not the default, and with no marker passed together with a default, raises the
  \<^verbatim>\<open>TypeError\<close> that names the call pattern, before the step updates reset, membrane,
  synaptic current or spike. The call leaves the instance exactly as it was, except when
  \<^verbatim>\<open>mem\<close> is left at its default, no argument is the marker and the stored membrane
  is still the marker: then the lazy initialisation has stored zero tensors for the
  hidden state and nothing else has changed.
\<close>

theorem hidden_usage_error:
  assumes "init_hidden self" and "spk self = Some sv" and "mem self = Some mv"
    and "is_not_False sv"
    and "is_not_False spk0 \<or> is_not_False mem0"
    and "(\<not> hasattr_init_flag spk0 \<and> \<not> hasattr_init_flag mem0)
         \<or> (is_not_False spk0 \<and> is_not_False mem0)"
    and "init_hidden ys" and "spk ys = Some sv'" and "syn ys = Some yv'" and "mem ys = Some mv'"
    and "is_not_False sv'" and "is_not_False yv'"
    and "is_not_False spk0' \<or> is_not_False syn0' \<or> is_not_False mem0'"
    and "(\<not> hasattr_init_flag spk0' \<and> \<not> hasattr_init_flag syn0' \<and> \<not> hasattr_init_flag mem0')
         \<or> (is_not_False spk0' \<and> is_not_False syn0' \<and> is_not_False mem0')"
  shows "RLeaky_forward self x spk0 mem0
           = (if is_False mem0 \<and> \<not> hasattr_init_flag spk0 \<and> hasattr_init_flag mv
              then self\<lparr>spk := Some (Tensor 0 True), mem := Some (Tensor 0 True)\<rparr>
              else self,
              Inl (TypeError ''When `init_hidden=True`, RLeaky expects 1 input argument.''))
       \<and> RSynaptic_forward ys x spk0' syn0' mem0'
           = (if is_False mem0' \<and> \<not> hasattr_init_flag spk0' \<and> \<not> hasattr_init_flag syn0'
                 \<and> hasattr_init_flag mv'
              then ys\<lparr>spk := Some (Tensor 0 True), syn := Some (Tensor 0 True),
                       mem := Some (Tensor 0 True)\<rparr>
              else ys,
              Inl (TypeError ''When `init_hidden=True`, RSynaptic expects 1 input argument.''))"
proof -
  have r: "RLeaky_forward self x spk0 mem0
           = (if is_False mem0 \<and> \<not> hasattr_init_flag spk0 \<and> hasattr_init_flag mv
              then self\<lparr>spk := Some (Tensor 0 True), mem := Some (Tensor 0 True)\<rparr>
              else self,
              Inl (TypeError ''When `init_hidden=True`, RLeaky expects 1 input argument.''))"
    using assms(1,5,6) RLeaky_hidden_raises [of spk0 mem0]
      RLeaky_hidden_raises [of "Tensor 0 True" "Tensor 0 True"]
    by (auto simp add: RLeaky_forward_def RLeaky_lazy_init_usage [OF assms(2,3,4,6)]
        is_False_not)
  have y: "RSynaptic_forward ys x spk0' syn0' mem0'
           = (if is_False mem0' \<and> \<not> hasattr_init_flag spk0' \<and> \<not> hasattr_init_flag syn0'
                 \<and> hasattr_init_flag mv'
              then ys\<lparr>spk := Some (Tensor 0 True), syn := Some (Tensor 0 True),
                       mem := Some (Tensor 0 True)\<rparr>
              else ys,
              Inl (TypeError ''When `init_hidden=True`, RSynaptic expects 1 input argument.''))"
    using assms(7,13,14) RSynaptic_hidden_raises [of spk0' syn0' mem0']
      RSynaptic_hidden_raises [of "Tensor 0 True" "Tensor 0 True" "Tensor 0 True"]
    by (auto simp add: RSynaptic_forward_def
        RSynaptic_lazy_init_usage [OF assms(8,9,10,11,12,14)] is_False_not)
  from r y show ?thesis by simp
qed

text \<open>An initialised instance given \<^verbatim>\<open>mem\<close> stays as it is; a fresh \<^verbatim>\<open>RSynaptic\<close>
  given \<^verbatim>\<open>syn\<close> alone is left with zero tensors.\<close>

theorem hidden_usage_error_witness:
  "init_hidden (RLeaky_init (1/2) 1 1 True False 0 False
       \<lparr>spk := Some (Tensor 1 True), mem := Some (Tensor 2 True)\<rparr>)
   \<and> is_not_False (Tensor 5 False)
   \<and> RLeaky_forward (RLeaky_init (1/2) 1 1 True False 0 False
         \<lparr>spk := Some (Tensor 1 True), mem := Some (Tensor 2 True)\<rparr>) 1 PyFalse (Tensor 5 False)
       = (RLeaky_init (1/2) 1 1 True False 0 False
            \<lparr>spk := Some (Tensor 1 True), mem := Some (Tensor 2 True)\<rparr>,
          Inl (TypeError ''When `init_hidden=True`, RLeaky expects 1 input argument.''))
   \<and> RSynaptic_forward (RSynaptic_init (1/2) (1/2) 1 1 True False 0 False) 1
         PyFalse (Tensor 5 False) PyFalse
       = (RSynaptic_init (1/2) (1/2) 1 1 True False 0 False
            \<lparr>spk := Some (Tensor 0 True), syn := Some (Tensor 0 True),
              mem := Some (Tensor 0 True)\<rparr>,
          Inl (TypeError ''When `init_hidden=True`, RSynaptic expects 1 input argument.''))"
  using hidden_usage_error
    [where self = "RLeaky_init (1/2) 1 1 True False 0 False
                     \<lparr>spk := Some (Tensor 1 True), mem := Some (Tensor 2 True)\<rparr>"
       and sv = "Tensor 1 True" and mv = "Tensor 2 True"
       and ?spk0.0 = PyFalse and ?mem0.0 = "Tensor 5 False"
       and ys = "RSynaptic_init (1/2) (1/2) 1 1 True False 0 False"
       and sv' = SpikeTensor and yv' = SpikeTensor and mv' = SpikeTensor
       and spk0' = PyFalse and syn0' = "Tensor 5 False" and mem0' = PyFalse and x = 1]
  by (simp add: RLeaky_init_def RSynaptic_init_def init_rleaky_def init_rsynaptic_def)

section \<open>The decay rates\<close>

lemma clamp_idem: "clamp (clamp b 0 1) 0 1 = clamp b 0 1"
  by (simp add: clamp_def)

lemma RLeaky_fire_beta:
  "mem_reset (self\<lparr>beta := c\<rparr>) m = mem_reset self m"
  "fire (self\<lparr>beta := c, reset := r\<rparr>) m = fire (self\<lparr>reset := r\<rparr>) m"
  "fire_inhibition (self\<lparr>beta := c, reset := r\<rparr>) m = fire_inhibition (self\<lparr>reset := r\<rparr>) m"
  by (simp_all add: mem_reset_def fire_def fire_inhibition_def)

lemma RSynaptic_fire_beta:
  "mem_reset (ys\<lparr>beta := c, alpha := a\<rparr>) m = mem_reset ys m"
  "fire (ys\<lparr>beta := c, alpha := a, reset := r\<rparr>) m = fire (ys\<lparr>reset := r\<rparr>) m"
  "fire_inhibition (ys\<lparr>beta := c, alpha := a, reset := r\<rparr>) m
     = fire_inhibition (ys\<lparr>reset := r\<rparr>) m"
  by (simp_all add: mem_reset_def fire_def fire_inhibition_def)

lemma RLeaky_base_hidden_clamped:
  "RLeaky_base_state_function_hidden (self\<lparr>beta := clamp (beta self) 0 1, reset := r\<rparr>) x
     = RLeaky_base_state_function_hidden (self\<lparr>reset := r\<rparr>) x"
  by (simp add: RLeaky_base_state_function_hidden_def clamp_idem split: sum.splits)

lemma RLeaky_build_hidden_clamped:
  "RLeaky_build_state_function_hidden (self\<lparr>beta := clamp (beta self) 0 1, reset := r\<rparr>) x
     = RLeaky_build_state_function_hidden (self\<lparr>reset := r\<rparr>) x"
  by (simp add: RLeaky_build_state_function_hidden_def RLeaky_base_hidden_clamped
      cong: sum.case_cong)

lemma RLeaky_build_clamped:
  "RLeaky_build_state_function (self\<lparr>beta := clamp (beta self) 0 1, reset := r\<rparr>) x s m
     = RLeaky_build_state_function (self\<lparr>reset := r\<rparr>) x s m"
  by (simp add: RLeaky_build_state_function_def RLeaky_base_state_function_def clamp_idem)

lemma RLeaky_explicit_clamped:
  "RLeaky_forward_explicit (self\<lparr>beta := clamp (beta self) 0 1\<rparr>) x s1 m1
     = (fst (RLeaky_forward_explicit self x s1 m1)\<lparr>beta := clamp (beta self) 0 1\<rparr>,
        snd (RLeaky_forward_explicit self x s1 m1))"
  by (simp add: RLeaky_forward_explicit_def Let_def RLeaky_build_clamped RLeaky_fire_beta
      fire_def fire_inhibition_def       split: sum.splits)

lemma RLeaky_hidden_clamped:
  "RLeaky_forward_hidden (self\<lparr>beta := clamp (beta self) 0 1\<rparr>) x s1 m1
     = (fst (RLeaky_forward_hidden self x s1 m1)\<lparr>beta := clamp (beta self) 0 1\<rparr>,
        snd (RLeaky_forward_hidden self x s1 m1))"
  by (simp add: RLeaky_forward_hidden_def Let_def RLeaky_build_hidden_clamped RLeaky_fire_beta
      fire_def fire_inhibition_def       split: sum.splits option.splits)

lemma RLeaky_lazy_init_clamped:
  "RLeaky_lazy_init (self\<lparr>beta := c\<rparr>) spk0 mem0
     = map_sum id (\<lambda>(i, s, m). (i\<lparr>beta := c\<rparr>, s, m)) (RLeaky_lazy_init self spk0 mem0)"
  by (simp add: RLeaky_lazy_init_def split: option.splits sum.splits prod.splits)

lemma RLeaky_lazy_init_beta:
  "RLeaky_lazy_init self spk0 mem0 = Inr (i, s, m) \<Longrightarrow> beta i = beta self \<and> init_hidden i = init_hidden self"
  by (auto simp add: RLeaky_lazy_init_def split: option.splits if_splits sum.splits prod.splits)

lemma RLeaky_forward_clamped:
  "RLeaky_forward (self\<lparr>beta := clamp (beta self) 0 1\<rparr>) x spk0 mem0
     = (fst (RLeaky_forward self x spk0 mem0)\<lparr>beta := clamp (beta self) 0 1\<rparr>,
        snd (RLeaky_forward self x spk0 mem0))"
proof (cases "RLeaky_lazy_init self spk0 mem0")
  case (Inl e)
  then show ?thesis
    by (simp add: RLeaky_forward_def RLeaky_lazy_init_clamped)
next
  case (Inr t)
  obtain i s m where t: "t = (i, s, m)" by (cases t) auto
  have b: "beta i = beta self" "init_hidden i = init_hidden self"
    using RLeaky_lazy_init_beta Inr t by auto
  show ?thesis
    using Inr t b RLeaky_explicit_clamped [of i x s m] RLeaky_hidden_clamped [of i x s m]
    by (simp add: RLeaky_forward_def RLeaky_lazy_init_clamped)
qed

lemma RSynaptic_base_hidden_clamped:
  "RSynaptic_base_state_function_hidden
     (ys\<lparr>beta := clamp (beta ys) 0 1, alpha := clamp (alpha ys) 0 1, reset := r\<rparr>) x
     = RSynaptic_base_state_function_hidden (ys\<lparr>reset := r\<rparr>) x"
  by (simp add: RSynaptic_base_state_function_hidden_def clamp_idem split: sum.splits)

lemma RSynaptic_build_hidden_clamped:
  "RSynaptic_build_state_function_hidden
     (ys\<lparr>beta := clamp (beta ys) 0 1, alpha := clamp (alpha ys) 0 1, reset := r\<rparr>) x
     = RSynaptic_build_state_function_hidden (ys\<lparr>reset := r\<rparr>) x"
  by (simp add: RSynaptic_build_state_function_hidden_def RSynaptic_base_hidden_clamped
      cong: sum.case_cong)

lemma RSynaptic_build_clamped:
  "RSynaptic_build_state_function
     (ys\<lparr>beta := clamp (beta ys) 0 1, alpha := clamp (alpha ys) 0 1, reset := r\<rparr>) x s sy m
     = RSynaptic_build_state_function (ys\<lparr>reset := r\<rparr>) x s sy m"
  by (simp add: RSynaptic_build_state_function_def RSynaptic_base_state_function_def
      RSynaptic_base_state_reset_zero_def clamp_idem)

lemma RSynaptic_explicit_clamped:
  "RSynaptic_forward_explicit (ys\<lparr>beta := clamp (beta ys) 0 1, alpha := clamp (alpha ys) 0 1\<rparr>) x s1 y1 m1
     = (fst (RSynaptic_forward_explicit ys x s1 y1 m1)
          \<lparr>beta := clamp (beta ys) 0 1, alpha := clamp (alpha ys) 0 1\<rparr>,
        snd (RSynaptic_forward_explicit ys x s1 y1 m1))"
  by (simp add: RSynaptic_forward_explicit_def Let_def RSynaptic_build_clamped
      RSynaptic_fire_beta fire_def fire_inhibition_def split: sum.splits prod.splits)

lemma RSynaptic_hidden_clamped:
  "RSynaptic_forward_hidden (ys\<lparr>beta := clamp (beta ys) 0 1, alpha := clamp (alpha ys) 0 1\<rparr>) x s1 y1 m1
     = (fst (RSynaptic_forward_hidden ys x s1 y1 m1)
          \<lparr>beta := clamp (beta ys) 0 1, alpha := clamp (alpha ys) 0 1\<rparr>,
        snd (RSynaptic_forward_hidden ys x s1 y1 m1))"
  by (simp add: RSynaptic_forward_hidden_def Let_def RSynaptic_build_hidden_clamped
      RSynaptic_fire_beta fire_def fire_inhibition_def split: sum.splits option.splits prod.splits)

lemma RSynaptic_lazy_init_clamped:
  "RSynaptic_lazy_init (ys\<lparr>beta := c, alpha := a\<rparr>) spk0 syn0 mem0
     = map_sum id (\<lambda>(i, s, y, m). (i\<lparr>beta := c, alpha := a\<rparr>, s, y, m))
         (RSynaptic_lazy_init ys spk0 syn0 mem0)"
  by (simp add: RSynaptic_lazy_init_def split: option.splits sum.splits prod.splits)

lemma RSynaptic_lazy_init_beta:
  "RSynaptic_lazy_init ys spk0 syn0 mem0 = Inr (i, s, y, m) \<Longrightarrow>
   beta i = beta ys \<and> alpha i = alpha ys \<and> init_hidden i = init_hidden ys"
  by (auto simp add: RSynaptic_lazy_init_def split: option.splits if_splits sum.splits prod.splits)

lemma RSynaptic_forward_clamped:
  "RSynaptic_forward (ys\<lparr>beta := clamp (beta ys) 0 1, alpha := clamp (alpha ys) 0 1\<rparr>) x spk0 syn0 mem0
     = (fst (RSynaptic_forward ys x spk0 syn0 mem0)
          \<lparr>beta := clamp (beta ys) 0 1, alpha := clamp (alpha ys) 0 1\<rparr>,
        snd (RSynaptic_forward ys x spk0 syn0 mem0))"
proof (cases "RSynaptic_lazy_init ys spk0 syn0 mem0")
  case (Inl e)
  then show ?thesis
    by (simp add: RSynaptic_forward_def RSynaptic_lazy_init_clamped)
next
  case (Inr t)
  obtain i s y m where t: "t = (i, s, y, m)" by (cases t) auto
  have b: "beta i = beta ys" "alpha i = alpha ys" "init_hidden i = init_hidden ys"
    using RSynaptic_lazy_init_beta Inr t by auto
  show ?thesis
    using Inr t b RSynaptic_explicit_clamped [of i x s y m] RSynaptic_hidden_clamped [of i x s y m]
    by (simp add: RSynaptic_forward_def RSynaptic_lazy_init_clamped)
qed

lemma RLeaky_explicit_beta:
  "beta (fst (RLeaky_forward_explicit self x s1 m1)) = beta self"
  by (simp add: RLeaky_forward_explicit_def Let_def split: sum.splits)

lemma RLeaky_hidden_beta:
  "beta (fst (RLeaky_forward_hidden self x s1 m1)) = beta self"
  by (simp add: RLeaky_forward_hidden_def Let_def split: sum.splits option.splits)

lemma RLeaky_forward_beta:
  "beta (fst (RLeaky_forward self x spk0 mem0)) = beta self"
proof (cases "RLeaky_lazy_init self spk0 mem0")
  case (Inl e)
  then show ?thesis by (simp add: RLeaky_forward_def)
next
  case (Inr t)
  obtain i s m where t: "t = (i, s, m)" by (cases t) auto
  have "beta i = beta self" using RLeaky_lazy_init_beta Inr t by auto
  then show ?thesis
    using Inr t by (simp add: RLeaky_forward_def RLeaky_explicit_beta RLeaky_hidden_beta)
qed

lemma RSynaptic_explicit_beta:
  "beta (fst (RSynaptic_forward_explicit ys x s1 y1 m1)) = beta ys
   \<and> alpha (fst (RSynaptic_forward_explicit ys x s1 y1 m1)) = alpha ys"
  by (simp add: RSynaptic_forward_explicit_def Let_def split: sum.splits prod.splits)

lemma RSynaptic_hidden_beta:
  "beta (fst (RSynaptic_forward_hidden ys x s1 y1 m1)) = beta ys
   \<and> alpha (fst (RSynaptic_forward_hidden ys x s1 y1 m1)) = alpha ys"
  by (simp add: RSynaptic_forward_hidden_def Let_def split: sum.splits option.splits prod.splits)

lemma RSynaptic_forward_beta:
  "beta (fst (RSynaptic_forward ys x spk0 syn0 mem0)) = beta ys
   \<and> alpha (fst (RSynaptic_forward ys x spk0 syn0 mem0)) = alpha ys"
proof (cases "RSynaptic_lazy_init ys spk0 syn0 mem0")
  case (Inl e)
  then show ?thesis by (simp add: RSynaptic_forward_def)
next
  case (Inr t)
  obtain i s y m where t: "t = (i, s, y, m)" by (cases t) auto
  have "beta i = beta ys" "alpha i = alpha ys" using RSynaptic_lazy_init_beta Inr t by auto
  then show ?thesis
    using Inr t
    by (simp add: RSynaptic_forward_def RSynaptic_explicit_beta RSynaptic_hidden_beta)
qed

text \<open>
  C9: a call of \<^verbatim>\<open>forward\<close> leaves the stored \<open>\<beta>\<close> (and \<open>\<alpha>\<close>) as they are, and
  the stored values enter the call only through their clamp to \<open>[0, 1]\<close>: the call on
  the instance and the call on the instance with the clamped rates stored return the same
  and leave the same state, the stored rates apart.
\<close>

theorem decay_rates_clamped_at_use:
  "beta (fst (RLeaky_forward self x spk0 mem0)) = beta self
   \<and> RLeaky_forward (self\<lparr>beta := clamp (beta self) 0 1\<rparr>) x spk0 mem0
       = (fst (RLeaky_forward self x spk0 mem0)\<lparr>beta := clamp (beta self) 0 1\<rparr>,
          snd (RLeaky_forward self x spk0 mem0))
   \<and> beta (fst (RSynaptic_forward ys x spk0 syn0 mem0)) = beta ys
   \<and> alpha (fst (RSynaptic_forward ys x spk0 syn0 mem0)) = alpha ys
   \<and> RSynaptic_forward (ys\<lparr>beta := clamp (beta ys) 0 1, alpha := clamp (alpha ys) 0 1\<rparr>)
         x spk0 syn0 mem0
       = (fst (RSynaptic_forward ys x spk0 syn0 mem0)
            \<lparr>beta := clamp (beta ys) 0 1, alpha := clamp (alpha ys) 0 1\<rparr>,
          snd (RSynaptic_forward ys x spk0 syn0 mem0))"
  using RLeaky_forward_beta RLeaky_forward_clamped RSynaptic_forward_beta
    RSynaptic_forward_clamped
  by simp

text \<open>A stored \<open>\<beta> = 5\<close> acts as \<open>\<beta> = 1\<close> and is still 5 after the call.\<close>

theorem decay_rates_clamped_at_use_witness:
  "beta (fst (RLeaky_forward (RLeaky_init 5 1 1 False False 0 False) 1 (Tensor 1 True) (Tensor 2 True))) = 5
   \<and> snd (RLeaky_forward (RLeaky_init 5 1 1 False False 0 False) 1 (Tensor 1 True) (Tensor 2 True))
       = Inr (Out_spk_mem 1 3)
   \<and> snd (RLeaky_forward (RLeaky_init 1 1 1 False False 0 False) 1 (Tensor 1 True) (Tensor 2 True))
       = Inr (Out_spk_mem 1 3)"
  using decay_rates_clamped_at_use
    [where self = "RLeaky_init 5 1 1 False False 0 False" and x = 1
       and ?spk0.0 = "Tensor 1 True" and ?mem0.0 = "Tensor 2 True"]
  by (simp add: forward_defs)

section \<open>The class-level operations and the stored spike\<close>


















section \<open>A forward call after reset_hidden\<close>







end
